theory Spec2Isabelle
  imports Main "HOL-Library.Sublist"
begin

section \<open>Python values, dictionaries and exceptions\<close>

text \<open>
  The values a market dictionary holds, as \<^verbatim>\<open>generate_contract\<close>'s docstring lists them:
  \<^verbatim>\<open>str\<close>, \<^verbatim>\<open>int\<close> (unbounded) and \<^verbatim>\<open>list[str]\<close>. A character is a code point below 256.
  A \<^verbatim>\<open>dict\<close> with string keys is an association list in insertion order with distinct
  keys; a key that is stored again keeps its place, a new key goes to the end.
\<close>

datatype pyval = PStr string | PInt int | PList "string list"

type_synonym pydict = "(string \<times> pyval) list"

text \<open>The terminals of the grammar: a string literal, or one of its three regular expressions;
  \<open>END\<close> is the end of the input.\<close>

datatype terminal = Lit string | STRING | ADDRESS | NUMBER | END

text \<open>
  Exceptions are values. \<open>UnexpectedInput line column expected\<close> stands for the parsing
  library's \<^verbatim>\<open>UnexpectedInput\<close> errors (\<^verbatim>\<open>UnexpectedCharacters\<close>, \<^verbatim>\<open>UnexpectedToken\<close>), which
  carry the position and the set of terminals that were acceptable there.
\<close>

datatype error =
    KeyError string
  | ValueError
  | IndexError
  | AttributeError
  | TypeError
  | FileNotFoundError string
  | UnexpectedInput nat nat "terminal list"

definition dict_get :: "pydict \<Rightarrow> string \<Rightarrow> pyval option" where
  "dict_get d k = map_of d k"

fun dict_set :: "pydict \<Rightarrow> string \<Rightarrow> pyval \<Rightarrow> pydict" where
  "dict_set [] k v = [(k, v)]"
| "dict_set ((k', v') # d) k v = (if k' = k then (k, v) # d else (k', v') # dict_set d k v)"

text \<open>\<^verbatim>\<open>d[k]\<close>: a missing key raises \<^verbatim>\<open>KeyError\<close>.\<close>

definition subscript :: "pydict \<Rightarrow> string \<Rightarrow> error + pyval" where
  "subscript d k = (case dict_get d k of None \<Rightarrow> Inl (KeyError k) | Some v \<Rightarrow> Inr v)"

subsection \<open>String methods\<close>

definition endswith :: "string \<Rightarrow> char \<Rightarrow> bool" where
  "endswith s c = (s \<noteq> [] \<and> last s = c)"

definition rstrip :: "string \<Rightarrow> char \<Rightarrow> string" where
  "rstrip s c = rev (dropWhile (\<lambda>x. x = c) (rev s))"

definition strip :: "string \<Rightarrow> char \<Rightarrow> string" where
  "strip s c = rstrip (dropWhile (\<lambda>x. x = c) s) c"

subsection \<open>\<^verbatim>\<open>int(s)\<close> on a string\<close>

text \<open>
  \<^verbatim>\<open>int(s)\<close> in base 10: white space around the literal is dropped, one sign is allowed, the
  digits may be separated by single underscores, and anything else raises \<^verbatim>\<open>ValueError\<close>.
  CPython also refuses a literal of more than \<^verbatim>\<open>sys.get_int_max_str_digits()\<close> digits (4300
  unless the interpreter is configured otherwise, 0 for no limit; the test only applies above
  640 digits). That setting is the parameter \<open>lim\<close> of the model.
\<close>

definition py_isspace :: "char \<Rightarrow> bool" where
  "py_isspace c = (c \<in> set [CHR 0x09, CHR 0x0A, CHR 0x0B, CHR 0x0C, CHR 0x0D, CHR 0x20,
                              CHR 0x85, CHR 0xA0])"

definition is_digit :: "char \<Rightarrow> bool" where
  "is_digit c = (c \<in> set ''0123456789'')"

definition digit_val :: "char \<Rightarrow> nat" where
  "digit_val c = of_char c - 48"

fun digits_value :: "nat \<Rightarrow> string \<Rightarrow> nat" where
  "digits_value acc [] = acc"
| "digits_value acc (c # cs) =
     (if c = CHR ''_'' then digits_value acc cs else digits_value (acc * 10 + digit_val c) cs)"

fun no_double_underscore :: "string \<Rightarrow> bool" where
  "no_double_underscore (a # b # cs) =
     (\<not> (a = CHR ''_'' \<and> b = CHR ''_'') \<and> no_double_underscore (b # cs))"
| "no_double_underscore _ = True"

definition well_formed_digits :: "string \<Rightarrow> bool" where
  "well_formed_digits body =
     (body \<noteq> [] \<and> hd body \<noteq> CHR ''_'' \<and> last body \<noteq> CHR ''_'' \<and> no_double_underscore body)"

definition py_int :: "nat \<Rightarrow> string \<Rightarrow> error + int" where
  "py_int lim s =
     (let s1 = dropWhile py_isspace s;
          neg = (s1 \<noteq> [] \<and> hd s1 = CHR ''-'');
          s2 = (if s1 \<noteq> [] \<and> (hd s1 = CHR ''-'' \<or> hd s1 = CHR ''+'') then tl s1 else s1);
          body = takeWhile (\<lambda>c. is_digit c \<or> c = CHR ''_'') s2;
          rest = dropWhile (\<lambda>c. is_digit c \<or> c = CHR ''_'') s2;
          n = length (filter is_digit body)
      in if \<not> well_formed_digits body \<or> \<not> list_all py_isspace rest then Inl ValueError
         else if 640 < n \<and> 0 < lim \<and> lim < n then Inl ValueError
         else Inr ((if neg then - 1 else 1) * int (digits_value 0 body)))"

subsection \<open>\<^verbatim>\<open>str(v)\<close>, as an f-string renders a value\<close>

definition digit_char :: "nat \<Rightarrow> char" where
  "digit_char n = ''0123456789'' ! (n mod 10)"

fun dec_nat :: "nat \<Rightarrow> string" where
  "dec_nat n =
     (if n < 10 then [digit_char n] else dec_nat (n div 10) @ [digit_char (n mod 10)])"

declare dec_nat.simps [simp del]

definition dec_int :: "int \<Rightarrow> string" where
  "dec_int i = (if i < 0 then CHR ''-'' # dec_nat (nat (- i)) else dec_nat (nat i))"

definition hex_digit :: "nat \<Rightarrow> char" where
  "hex_digit n = ''0123456789abcdef'' ! (n mod 16)"

definition py_printable :: "char \<Rightarrow> bool" where
  "py_printable c =
     (let n = of_char c :: nat in (32 \<le> n \<and> n < 127) \<or> (161 \<le> n \<and> n \<noteq> 173))"

definition repr_char :: "char \<Rightarrow> char \<Rightarrow> string" where
  "repr_char q c =
     (if c = q \<or> c = CHR 0x5C then [CHR 0x5C, c]
      else if c = CHR 0x09 then [CHR 0x5C, CHR ''t'']
      else if c = CHR 0x0A then [CHR 0x5C, CHR ''n'']
      else if c = CHR 0x0D then [CHR 0x5C, CHR ''r'']
      else if py_printable c then [c]
      else [CHR 0x5C, CHR ''x'', hex_digit (of_char c div 16), hex_digit (of_char c)])"

definition repr_str :: "string \<Rightarrow> string" where
  "repr_str s =
     (let q = (if CHR 0x27 \<in> set s \<and> CHR 0x22 \<notin> set s then CHR 0x22 else CHR 0x27)
      in [q] @ concat (map (repr_char q) s) @ [q])"

fun join :: "string \<Rightarrow> string list \<Rightarrow> string" where
  "join sep [] = []"
| "join sep [x] = x"
| "join sep (x # y # xs) = x @ sep @ join sep (y # xs)"

fun str_text :: "pyval \<Rightarrow> string" where
  "str_text (PStr s) = s"
| "str_text (PInt i) = dec_int i"
| "str_text (PList xs) = ''['' @ join '', '' (map repr_str xs) @ '']''"

text \<open>
  \<^verbatim>\<open>str(v)\<close>, which the f-string calls on the value it interpolates: it returns the text
  above, but for an \<^verbatim>\<open>int\<close> with more digits than the interpreter's limit (the sign is not
  counted) it raises \<^verbatim>\<open>ValueError\<close>, as \<^verbatim>\<open>int(s)\<close> does.
\<close>

definition py_str :: "nat \<Rightarrow> pyval \<Rightarrow> error + string" where
  "py_str lim v =
     (case v of
        PInt i \<Rightarrow>
          (let n = length (dec_nat (nat \<bar>i\<bar>))
           in if 640 < n \<and> 0 < lim \<and> lim < n then Inl ValueError else Inr (str_text v))
      | _ \<Rightarrow> Inr (str_text v))"

section \<open>The code generator\<close>

text \<open>
  The f-string of \<^verbatim>\<open>generate_contract\<close>, line by line: the lines before the one that
  interpolates \<^verbatim>\<open>market['mechanism']\<close>, and the lines after it. \<^verbatim>\<open>{{\<close> and \<^verbatim>\<open>}}\<close> of the source
  are the braces they stand for.
\<close>

definition template_head :: "string list" where
  \<open>template_head =
    [''// SPDX-License-Identifier: MIT'',
     ''pragma solidity ^0.8.20;'',
     '''',
     ''/// @title Binary Market Contract'',
     ''/// @notice A contract for creating and managing binary prediction markets'',
     ''/// @dev Uses a pool-based mechanism for trading'',
     ''contract BinaryMarket {'',
     ''    // Market state'',
     ''    string public question;'',
     ''    address public oracle;'',
     ''    uint256 public fee;  // in basis points (1% = 100)'',
     ''    string public mechanism;'',
     ''    '',
     ''    // Outcomes'',
     ''    enum Outcome { Yes, No }'',
     ''    mapping(Outcome => uint256) public outcomeAmounts;'',
     ''    '',
     ''    // User positions'',
     ''    mapping(address => mapping(Outcome => uint256)) public userPositions;'',
     ''    '',
     ''    // Market status'',
     ''    bool public isResolved;'',
     ''    Outcome public winningOutcome;'',
     ''    '',
     ''    // Events'',
     ''    event MarketCreated(string question, address oracle, uint256 fee);'',
     ''    event PositionOpened(address user, Outcome outcome, uint256 amount);'',
     ''    event MarketResolved(Outcome winningOutcome);'',
     ''    event WinningsClaimed(address user, uint256 amount);'',
     ''    '',
     ''    /// @notice Creates a new binary prediction market'',
     ''    /// @param _question The question for the prediction market'',
     ''    /// @param _oracle The address that can resolve the market'',
     ''    /// @param _fee The fee in basis points (1% = 100)'',
     ''    constructor('',
     ''        string memory _question,'',
     ''        address _oracle,'',
     ''        uint256 _fee'',
     ''    ) {'',
     ''        require(_oracle != address(0), "Invalid oracle address");'',
     ''        require(_fee <= 1000, "Fee too high"); // Max 10%'',
     ''        '',
     ''        question = _question;'',
     ''        oracle = _oracle;'',
     ''        fee = _fee;'']\<close>

definition template_tail :: "string list" where
  \<open>template_tail =
    [''        '',
     ''        emit MarketCreated(_question, _oracle, _fee);'',
     ''    }'',
     ''    '',
     ''    /// @notice Opens a position in the market'',
     ''    /// @param outcome The outcome to bet on (Yes or No)'',
     ''    /// @dev Requires sending ETH with the transaction'',
     ''    function openPosition(Outcome outcome) external payable {'',
     ''        require(!isResolved, "Market is resolved");'',
     ''        require(msg.value > 0, "Must bet some ETH");'',
     ''        '',
     ''        // Update user position'',
     ''        userPositions[msg.sender][outcome] += msg.value;'',
     ''        '',
     ''        // Update outcome amounts'',
     ''        outcomeAmounts[outcome] += msg.value;'',
     ''        '',
     ''        emit PositionOpened(msg.sender, outcome, msg.value);'',
     ''    }'',
     ''    '',
     ''    /// @notice Resolves the market with the winning outcome'',
     ''    /// @param _winningOutcome The winning outcome (Yes or No)'',
     ''    /// @dev Only callable by the oracle'',
     ''    function resolveMarket(Outcome _winningOutcome) external {'',
     ''        require(msg.sender == oracle, "Only oracle can resolve");'',
     ''        require(!isResolved, "Market already resolved");'',
     ''        '',
     ''        isResolved = true;'',
     ''        winningOutcome = _winningOutcome;'',
     ''        '',
     ''        emit MarketResolved(_winningOutcome);'',
     ''    }'',
     ''    '',
     ''    /// @notice Claims winnings for the caller'',
     ''    /// @dev Calculates proportional share of the winning pool'',
     ''    /// @return amount The amount of ETH claimed'',
     ''    function claimWinnings() external returns (uint256 amount) {'',
     ''        require(isResolved, "Market not resolved");'',
     ''        '',
     ''        uint256 userAmount = userPositions[msg.sender][winningOutcome];'',
     ''        require(userAmount > 0, "No winning position");'',
     ''        '',
     ''        // Calculate winnings with optimized math to avoid precision loss'',
     ''        uint256 winningPool = outcomeAmounts[winningOutcome];'',
     ''        '',
     ''        // Calculate fee amount first'',
     ''        uint256 feeAmount = (winningPool * fee) / 10000;'',
     ''        uint256 netWinningPool = winningPool - feeAmount;'',
     ''        '',
     ''        // Calculate user\'s share using multiplication before division'',
     ''        amount = (userAmount * netWinningPool) / outcomeAmounts[winningOutcome];'',
     ''        '',
     ''        // Clear user position'',
     ''        userPositions[msg.sender][winningOutcome] = 0;'',
     ''        '',
     ''        // Transfer winnings'',
     ''        (bool success, ) = msg.sender.call{value: amount}("");'',
     ''        require(success, "Transfer failed");'',
     ''        '',
     ''        emit WinningsClaimed(msg.sender, amount);'',
     ''    }'',
     ''}'']\<close>

definition mechanism_line :: "string \<Rightarrow> string" where
  \<open>mechanism_line m = ''        mechanism = "'' @ m @ ''";''\<close>

definition contract_text :: "string \<Rightarrow> string" where
  "contract_text m = join [CHR 0x0A] (template_head @ [mechanism_line m] @ template_tail)"

text \<open>
  Lines 16 to 18: the local variable \<^verbatim>\<open>fee\<close> after the step commented
  ``Convert fee from percentage to basis points if needed''.
\<close>

definition generate_contract_fee :: "nat \<Rightarrow> pydict \<Rightarrow> error + pyval" where
  "generate_contract_fee lim market =
     (case subscript market ''fee'' of
        Inl e \<Rightarrow> Inl e
      | Inr fee \<Rightarrow>
          (case fee of
             PStr s \<Rightarrow>
               (if endswith s CHR ''%'' then
                  (case py_int lim (rstrip s CHR ''%'') of
                     Inl e \<Rightarrow> Inl e
                   | Inr n \<Rightarrow> Inr (PInt (n * 100)))
                else Inr fee)
           | _ \<Rightarrow> Inr fee))"

definition generate_contract :: "nat \<Rightarrow> pydict \<Rightarrow> error + string" where
  "generate_contract lim market =
     (case generate_contract_fee lim market of
        Inl e \<Rightarrow> Inl e
      | Inr fee \<Rightarrow>
          (case subscript market ''mechanism'' of
             Inl e \<Rightarrow> Inl e
           | Inr m \<Rightarrow>
               (case py_str lim m of
                  Inl e \<Rightarrow> Inl e
                | Inr s \<Rightarrow> Inr (contract_text s))))"

section \<open>The parser\<close>

subsection \<open>The transformer's methods\<close>

text \<open>
  Each method of \<^verbatim>\<open>MarketTransformer\<close> receives the list \<^verbatim>\<open>items\<close> of the children of its
  rule: the tokens that are not string literals of the grammar, and the results of the
  rules below it. A token is a \<^verbatim>\<open>str\<close>. \<^verbatim>\<open>items[0]\<close> on an empty list raises
  \<^verbatim>\<open>IndexError\<close>.
\<close>

definition and_then :: "error + 'a \<Rightarrow> ('a \<Rightarrow> error + 'b) \<Rightarrow> error + 'b" where
  "and_then m f = (case m of Inl e \<Rightarrow> Inl e | Inr x \<Rightarrow> f x)"

datatype item = Token string | Dict pydict

definition MarketTransformer_start :: "pydict list \<Rightarrow> error + pydict" where
  "MarketTransformer_start items = (case items of [] \<Rightarrow> Inl IndexError | x # _ \<Rightarrow> Inr x)"

definition MarketTransformer_market :: "item list \<Rightarrow> error + pydict" where
  "MarketTransformer_market items =
     (case items of
        [] \<Rightarrow> Inl IndexError
      | Dict _ # _ \<Rightarrow> Inl AttributeError
      | [Token _] \<Rightarrow> Inl IndexError
      | Token _ # Token _ # _ \<Rightarrow> Inl TypeError
      | Token s # Dict d # _ \<Rightarrow>
          and_then (subscript d ''outcomes'') (\<lambda>v_outcomes.
          and_then (subscript d ''oracle'') (\<lambda>v_oracle.
          and_then (subscript d ''fee'') (\<lambda>v_fee.
          and_then (subscript d ''mechanism'') (\<lambda>v_mechanism.
            Inr [(''question'', PStr (strip s (CHR 0x22))),
                 (''outcomes'', v_outcomes),
                 (''oracle'', v_oracle),
                 (''fee'', v_fee),
                 (''mechanism'', v_mechanism)])))))"

definition MarketTransformer_fields :: "pydict list \<Rightarrow> pydict" where
  "MarketTransformer_fields items =
     foldl (\<lambda>acc item. foldl (\<lambda>acc kv. dict_set acc (fst kv) (snd kv)) acc item) [] items"

definition MarketTransformer_outcomes :: "'a \<Rightarrow> pydict" where
  "MarketTransformer_outcomes items = [(''outcomes'', PList [''Yes'', ''No''])]"

definition MarketTransformer_oracle :: "string list \<Rightarrow> error + pydict" where
  "MarketTransformer_oracle items =
     (case items of [] \<Rightarrow> Inl IndexError | x # _ \<Rightarrow> Inr [(''oracle'', PStr x)])"

definition MarketTransformer_fee :: "nat \<Rightarrow> string list \<Rightarrow> error + pydict" where
  "MarketTransformer_fee lim items =
     (case items of
        [] \<Rightarrow> Inl IndexError
      | x # _ \<Rightarrow> and_then (py_int lim x) (\<lambda>n. Inr [(''fee'', PInt n)]))"

definition MarketTransformer_trading_mechanism :: "'a \<Rightarrow> pydict" where
  "MarketTransformer_trading_mechanism items = [(''mechanism'', PStr ''pool'')]"

definition MarketTransformer_string :: "string list \<Rightarrow> error + string" where
  "MarketTransformer_string items = (case items of [] \<Rightarrow> Inl IndexError | x # _ \<Rightarrow> Inr x)"

definition MarketTransformer_address :: "string list \<Rightarrow> error + string" where
  "MarketTransformer_address items = (case items of [] \<Rightarrow> Inl IndexError | x # _ \<Rightarrow> Inr x)"

definition MarketTransformer_number :: "string list \<Rightarrow> error + string" where
  "MarketTransformer_number items = (case items of [] \<Rightarrow> Inl IndexError | x # _ \<Rightarrow> Inr x)"

subsection \<open>The lexer\<close>

text \<open>
  The terminals: a string literal matches itself; \<^verbatim>\<open>/"[^"]*"/\<close>, \<^verbatim>\<open>/0x[0-9a-fA-F]{40}/\<close> and
  \<^verbatim>\<open>/[0-9]+/\<close> match the longest prefix they can. \<^verbatim>\<open>common.WS\<close>, which the grammar ignores,
  is a run of blanks, tabs, form feeds, carriage returns and newlines.
\<close>

definition is_ws :: "char \<Rightarrow> bool" where
  "is_ws c = (c \<in> set [CHR 0x20, CHR 0x09, CHR 0x0C, CHR 0x0D, CHR 0x0A])"

definition is_hex :: "char \<Rightarrow> bool" where
  "is_hex c = (c \<in> set ''0123456789abcdefABCDEF'')"

fun match_terminal :: "terminal \<Rightarrow> string \<Rightarrow> (string \<times> string) option" where
  "match_terminal (Lit s) inp =
     (if prefix s inp then Some (s, drop (length s) inp) else None)"
| "match_terminal STRING inp =
     (case inp of
        [] \<Rightarrow> None
      | c # cs \<Rightarrow>
          if c \<noteq> CHR 0x22 then None
          else (case dropWhile (\<lambda>x. x \<noteq> CHR 0x22) cs of
                  [] \<Rightarrow> None
                | _ # rest \<Rightarrow>
                    Some (CHR 0x22 # takeWhile (\<lambda>x. x \<noteq> CHR 0x22) cs @ [CHR 0x22], rest)))"
| "match_terminal ADDRESS inp =
     (if take 2 inp = ''0x'' \<and> length (take 40 (drop 2 inp)) = 40
         \<and> list_all is_hex (take 40 (drop 2 inp))
      then Some (take 42 inp, drop 42 inp) else None)"
| "match_terminal NUMBER inp =
     (if takeWhile is_digit inp = [] then None
      else Some (takeWhile is_digit inp, dropWhile is_digit inp))"
| "match_terminal END inp = None"

text \<open>
  The lexer's state: the text not yet read, the line and column of its first character
  (both from 1), and the position of the last token read. The line counter moves over
  every token and every ignored blank.
\<close>

record lexer_state =
  remaining :: string
  line :: nat
  column :: nat
  last_token :: "(nat \<times> nat) option"

definition start_state :: "string \<Rightarrow> lexer_state" where
  "start_state txt = \<lparr>remaining = txt, line = 1, column = 1, last_token = None\<rparr>"

definition feed :: "nat \<times> nat \<Rightarrow> string \<Rightarrow> nat \<times> nat" where
  "feed p tok =
     (if CHR 0x0A \<in> set tok
      then (fst p + count_list tok (CHR 0x0A),
            length (takeWhile (\<lambda>c. c \<noteq> CHR 0x0A) (rev tok)) + 1)
      else (fst p, snd p + length tok))"

text \<open>
  Reading the next token in a parser state that accepts the one terminal \<open>t\<close> (the
  contextual lexer): blanks are skipped; at the end of the text the parser is given the end
  token, which borrows the position of the last token read (line 1, column 1 when there is
  none) and is refused; text that \<open>t\<close> does not match is refused at its own position.
\<close>

definition next_token :: "terminal \<Rightarrow> lexer_state \<Rightarrow> error + (string \<times> lexer_state)" where
  "next_token t st =
     (let inp = dropWhile is_ws (remaining st);
          p = feed (line st, column st) (takeWhile is_ws (remaining st))
      in if inp = [] then
           (case last_token st of
              None \<Rightarrow> Inl (UnexpectedInput 1 1 [t])
            | Some q \<Rightarrow> Inl (UnexpectedInput (fst q) (snd q) [t]))
         else
           (case match_terminal t inp of
              None \<Rightarrow> Inl (UnexpectedInput (fst p) (snd p) [t])
            | Some (tok, rest) \<Rightarrow>
                Inr (tok, \<lparr>remaining = rest, line = fst (feed p tok),
                          column = snd (feed p tok), last_token = Some p\<rparr>)))"

text \<open>A string literal of the grammar: its token is not kept among the children.\<close>

definition expect :: "string \<Rightarrow> lexer_state \<Rightarrow> error + lexer_state" where
  "expect s st = and_then (next_token (Lit s) st) (\<lambda>r. Inr (snd r))"

text \<open>After the last token only blanks may follow.\<close>

definition end_of_input :: "lexer_state \<Rightarrow> error + unit" where
  "end_of_input st =
     (let inp = dropWhile is_ws (remaining st);
          p = feed (line st, column st) (takeWhile is_ws (remaining st))
      in if inp = [] then Inr () else Inl (UnexpectedInput (fst p) (snd p) [END]))"

subsection \<open>The LALR run over the grammar\<close>

text \<open>
  Modelled from the spec: the file \<^verbatim>\<open>market_grammar.lark\<close> that \<^verbatim>\<open>parse_market\<close> opens is not
  among the sources. It is taken to hold the grammar of section 4.1 of the specification,
  with the rule names of the module's \<^verbatim>\<open>grammar\<close> string, after which the transformer's
  methods are named:
  \<^verbatim>\<open>
  start: market
  market: "market" string "{" fields "}"
  fields: outcomes oracle fee trading_mechanism
  outcomes: "outcomes:" "Yes" "," "No" ";"
  oracle: "oracle:" address ";"
  fee: "fee:" number "%" ";"
  trading_mechanism: "trading_mechanism:" "pool" ";"
  string: /"[^"]*"/
  address: /0x[0-9a-fA-F]{40}/
  number: /[0-9]+/
  \<close>
  The grammar has no alternative, so the LALR parser reads its terminals in one fixed
  order. It reduces a rule, calling the transformer's method of that name, when it is given
  the token that follows the rule: each method stands below after that token.
\<close>

definition lark_parse :: "nat \<Rightarrow> string \<Rightarrow> error + pydict" where
  "lark_parse lim txt =
     and_then (expect ''market'' (start_state txt)) (\<lambda>s.
     and_then (next_token STRING s) (\<lambda>(tok_string, s).
     and_then (expect ''{'' s) (\<lambda>s.
     and_then (MarketTransformer_string [tok_string]) (\<lambda>v_string.
     and_then (expect ''outcomes:'' s) (\<lambda>s.
     and_then (expect ''Yes'' s) (\<lambda>s.
     and_then (expect '','' s) (\<lambda>s.
     and_then (expect ''No'' s) (\<lambda>s.
     and_then (expect '';'' s) (\<lambda>s.
     and_then (expect ''oracle:'' s) (\<lambda>s.
     and_then (Inr (MarketTransformer_outcomes ([] :: string list))) (\<lambda>v_outcomes.
     and_then (next_token ADDRESS s) (\<lambda>(tok_address, s).
     and_then (expect '';'' s) (\<lambda>s.
     and_then (MarketTransformer_address [tok_address]) (\<lambda>v_address.
     and_then (expect ''fee:'' s) (\<lambda>s.
     and_then (MarketTransformer_oracle [v_address]) (\<lambda>v_oracle.
     and_then (next_token NUMBER s) (\<lambda>(tok_number, s).
     and_then (expect ''%'' s) (\<lambda>s.
     and_then (MarketTransformer_number [tok_number]) (\<lambda>v_number.
     and_then (expect '';'' s) (\<lambda>s.
     and_then (expect ''trading_mechanism:'' s) (\<lambda>s.
     and_then (MarketTransformer_fee lim [v_number]) (\<lambda>v_fee.
     and_then (expect ''pool'' s) (\<lambda>s.
     and_then (expect '';'' s) (\<lambda>s.
     and_then (expect ''}'' s) (\<lambda>s.
     and_then (Inr (MarketTransformer_trading_mechanism ([] :: string list))) (\<lambda>v_mechanism.
     and_then (Inr (MarketTransformer_fields [v_outcomes, v_oracle, v_fee, v_mechanism]))
       (\<lambda>v_fields.
     and_then (end_of_input s) (\<lambda>_.
     and_then (MarketTransformer_market [Token v_string, Dict v_fields]) (\<lambda>v_market.
     MarketTransformer_start [v_market])))))))))))))))))))))))))))))"

text \<open>
  \<^verbatim>\<open>parse_market\<close> builds its parser from the file \<^verbatim>\<open>market_grammar.lark\<close> in the working
  directory, on every call; \<open>grammar_file\<close> says whether that file exists. The module's
  \<^verbatim>\<open>grammar\<close> string is not used.
\<close>

definition parse_market :: "nat \<Rightarrow> bool \<Rightarrow> string \<Rightarrow> error + pydict" where
  "parse_market lim grammar_file txt =
     (if \<not> grammar_file then Inl (FileNotFoundError ''market_grammar.lark'')
      else lark_parse lim txt)"

section \<open>Documents of the grammar\<close>

text \<open>
  The dictionary that \<^verbatim>\<open>MarketTransformer.market\<close> builds: the five fields of a parsed
  market, in the order of its dictionary display.
\<close>

definition market_ast :: "string \<Rightarrow> string \<Rightarrow> int \<Rightarrow> pydict" where
  "market_ast q a f =
     [(''question'', PStr q), (''outcomes'', PList [''Yes'', ''No'']), (''oracle'', PStr a),
      (''fee'', PInt f), (''mechanism'', PStr ''pool'')]"

text \<open>
  A document of the grammar is its nineteen tokens in order, with a run of blanks before
  each of them and after the last: the question \<open>q\<close> between double quotes, the address
  \<open>a\<close> and the numeral \<open>n\<close> of the fee are its only free parts.
\<close>

fun weave :: "string list \<Rightarrow> string list \<Rightarrow> string" where
  "weave (w # ws) (t # ts) = w @ t @ weave ws ts"
| "weave ws [] = concat ws"
| "weave [] ts = concat ts"

definition document_tokens :: "string \<Rightarrow> string \<Rightarrow> string \<Rightarrow> string list" where
  "document_tokens q a n =
     [''market'', [CHR 0x22] @ q @ [CHR 0x22], ''{'',
      ''outcomes:'', ''Yes'', '','', ''No'', '';'',
      ''oracle:'', a, '';'',
      ''fee:'', n, ''%'', '';'',
      ''trading_mechanism:'', ''pool'', '';'', ''}'']"

definition document :: "string list \<Rightarrow> string \<Rightarrow> string \<Rightarrow> string \<Rightarrow> string" where
  "document ws q a n = weave ws (document_tokens q a n)"

definition conforming_parts :: "string list \<Rightarrow> string \<Rightarrow> string \<Rightarrow> string \<Rightarrow> bool" where
  "conforming_parts ws q a n =
     (length ws = 20 \<and> list_all (list_all is_ws) ws \<and>
      CHR 0x22 \<notin> set q \<and>
      take 2 a = ''0x'' \<and> length a = 42 \<and> list_all is_hex (drop 2 a) \<and>
      n \<noteq> [] \<and> list_all is_digit n)"

text \<open>The document of the specification's concrete scenario.\<close>

definition example_document :: string where
  \<open>example_document =
     ''market "Will ETH reach $5000 in 2024?" { outcomes: Yes, No; oracle: 0x1234567890123456789012345678901234567890; fee: 1%; trading_mechanism: pool; }''\<close>

section \<open>Notions for the proofs\<close>

text \<open>
  Reading a list of terminals one after the other, as \<open>lark_parse\<close> does between two
  reductions that can fail; the tokens are returned in order.
\<close>

fun lex_all :: "terminal list \<Rightarrow> lexer_state \<Rightarrow> error + (string list \<times> lexer_state)" where
  "lex_all [] st = Inr ([], st)"
| "lex_all (t # ts) st =
     and_then (next_token t st) (\<lambda>r.
     and_then (lex_all ts (snd r)) (\<lambda>rs. Inr (fst r # fst rs, snd rs)))"







section \<open>Auxiliary facts\<close>

lemma dict_get_dict_set:
  "dict_get (dict_set d k v) k' = (if k' = k then Some v else dict_get d k')"
  by (induction d) (auto simp: dict_get_def)

lemma is_digit_simps:
  "is_digit c \<Longrightarrow> \<not> py_isspace c"
  "is_digit c \<Longrightarrow> c \<noteq> CHR ''-''"
  "is_digit c \<Longrightarrow> c \<noteq> CHR ''+''"
  "is_digit c \<Longrightarrow> c \<noteq> CHR ''_''"
  "is_digit c \<Longrightarrow> c \<noteq> CHR ''%''"
  "is_digit c \<Longrightarrow> c \<noteq> CHR 0x22"
  by (auto simp: is_digit_def py_isspace_def)

lemma no_double_underscore_digits:
  "list_all is_digit ds \<Longrightarrow> no_double_underscore ds"
  by (induction ds rule: no_double_underscore.induct) (auto simp: is_digit_simps)

lemma well_formed_digits_digits:
  assumes "ds \<noteq> []" "list_all is_digit ds"
  shows "well_formed_digits ds"
proof -
  have "is_digit (hd ds)" "is_digit (last ds)"
    using assms by (auto simp: list_all_iff)
  then show ?thesis
    using assms by (auto simp: well_formed_digits_def no_double_underscore_digits is_digit_simps)
qed

lemma py_int_digits_cases:
  assumes "ds \<noteq> []" "list_all is_digit ds"
  shows "py_int lim ds =
           (if 640 < length ds \<and> 0 < lim \<and> lim < length ds then Inl ValueError
            else Inr (int (digits_value 0 ds)))"
proof -
  have hd: "is_digit (hd ds)"
    using assms by (cases ds) auto
  have 1: "dropWhile py_isspace ds = ds"
    using assms hd by (cases ds) (auto simp: is_digit_simps)
  have 2: "takeWhile (\<lambda>c. is_digit c \<or> c = CHR ''_'') ds = ds"
    using assms by (auto simp: takeWhile_eq_all_conv list_all_iff)
  have 3: "dropWhile (\<lambda>c. is_digit c \<or> c = CHR ''_'') ds = []"
    using assms by (auto simp: list_all_iff)
  have 4: "filter is_digit ds = ds"
    using assms by (auto simp: list_all_iff)
  have 5: "hd ds \<noteq> CHR ''-''" "hd ds \<noteq> CHR ''+''"
    using hd by (auto simp: is_digit_simps)
  show ?thesis
    using assms 5 by (simp add: py_int_def 1 2 3 4 well_formed_digits_digits Let_def)
qed

lemma rstrip_digits_percent:
  assumes "ds \<noteq> []" "list_all is_digit ds"
  shows "rstrip (ds @ ''%'') (CHR ''%'') = ds"
proof -
  have "is_digit (last ds)" using assms by (auto simp: list_all_iff)
  then have "last ds \<noteq> CHR ''%''" by (auto simp: is_digit_simps)
  then have "dropWhile (\<lambda>x. x = CHR ''%'') (rev ds) = rev ds"
    using assms by (cases ds rule: rev_cases) auto
  then show ?thesis by (simp add: rstrip_def)
qed

lemma less_10_cases:
  "d < 10 \<Longrightarrow> d = 0 \<or> d = 1 \<or> d = 2 \<or> d = 3 \<or> d = 4 \<or> d = 5 \<or> d = 6 \<or> d = 7 \<or> d = 8 \<or> d = (9::nat)"
  by arith

lemma digit_val_digit_char: "d < 10 \<Longrightarrow> digit_val (digit_char d) = d"
  using less_10_cases[of d] by (auto simp: digit_val_def digit_char_def)

lemma is_digit_digit_char: "is_digit (digit_char d)"
proof -
  have "d mod 10 < 10" by simp
  from less_10_cases[OF this] show ?thesis
    by (auto simp: is_digit_def digit_char_def)
qed

lemma digits_value_append_digit:
  "c \<noteq> CHR ''_'' \<Longrightarrow> digits_value acc (ds @ [c]) = digits_value acc ds * 10 + digit_val c"
  by (induction ds arbitrary: acc) auto

lemma dec_nat_digits: "list_all is_digit (dec_nat n) \<and> dec_nat n \<noteq> []"
proof (induction n rule: dec_nat.induct)
  case (1 n)
  then show ?case
    by (subst (1 2) dec_nat.simps) (auto simp: is_digit_digit_char)
qed

lemma digits_value_dec_nat: "digits_value 0 (dec_nat n) = n"
proof (induction n rule: dec_nat.induct)
  case (1 n)
  show ?case
  proof (cases "n < 10")
    case True
    then show ?thesis
      using is_digit_digit_char[of n]
      by (subst dec_nat.simps) (simp add: digit_val_digit_char is_digit_simps)
  next
    case False
    have "digit_char (n mod 10) \<noteq> CHR ''_''"
      using is_digit_digit_char[of "n mod 10"] by (auto simp: is_digit_simps)
    with False 1 show ?thesis
      by (subst dec_nat.simps) (simp add: digits_value_append_digit digit_val_digit_char)
  qed
qed

lemma set_join: "set (join sep xs) \<subseteq> set sep \<union> (\<Union>x\<in>set xs. set x)"
  by (induction sep xs rule: join.induct) auto

lemma nine_head: "\<forall>l\<in>set template_head. CHR ''9'' \<notin> set l"
  by (simp add: template_head_def)

lemma nine_tail: "\<forall>l\<in>set template_tail. CHR ''9'' \<notin> set l"
  by (simp add: template_tail_def)

lemma nine_contract_text: "CHR ''9'' \<notin> set m \<Longrightarrow> CHR ''9'' \<notin> set (contract_text m)"
  using set_join[of "[CHR 0x0A]" "template_head @ [mechanism_line m] @ template_tail"]
    nine_head nine_tail
  by (auto simp: contract_text_def mechanism_line_def)

lemma generate_contract_fee_int:
  "dict_get m ''fee'' = Some (PInt n) \<Longrightarrow> generate_contract_fee lim m = Inr (PInt n)"
  by (simp add: generate_contract_fee_def subscript_def)

lemma generate_contract_fee_str:
  "dict_get m ''fee'' = Some (PStr s) \<Longrightarrow>
   generate_contract_fee lim m =
     (if endswith s (CHR ''%'')
      then (case py_int lim (rstrip s (CHR ''%'')) of
              Inl e \<Rightarrow> Inl e | Inr n \<Rightarrow> Inr (PInt (n * 100)))
      else Inr (PStr s))"
  by (simp add: generate_contract_fee_def subscript_def)




lemma py_str_Inr: "py_str lim v = Inr s \<Longrightarrow> s = str_text v"
  by (auto simp: py_str_def Let_def split: pyval.splits if_splits)




lemma py_str_PStr [simp]: "py_str lim (PStr s) = Inr s"
  by (simp add: py_str_def)



lemma generate_contract_Inr:
  "generate_contract lim m = Inr t \<longleftrightarrow>
     (\<exists>f v. generate_contract_fee lim m = Inr f \<and> dict_get m ''mechanism'' = Some v
        \<and> py_str lim v = Inr (str_text v) \<and> t = contract_text (str_text v))"
  by (auto simp: generate_contract_def subscript_def split: sum.splits option.splits
      dest: py_str_Inr)



lemma generate_contract_cong:
  assumes "dict_get m ''fee'' = dict_get m' ''fee''"
      and "dict_get m ''mechanism'' = dict_get m' ''mechanism''"
  shows "generate_contract lim m = generate_contract lim m'"
proof -
  have "generate_contract_fee lim m = generate_contract_fee lim m'"
    using assms by (simp add: generate_contract_fee_def subscript_def)
  moreover have "subscript m ''mechanism'' = subscript m' ''mechanism''"
    using assms by (simp add: subscript_def)
  ultimately show ?thesis
    by (simp add: generate_contract_def split: sum.splits)
qed

lemma contract_text_lines:
  \<open>contract_text s =
     join [CHR 0x0A] (template_head @ [''        mechanism = "'' @ s @ ''";''] @ template_tail)\<close>
  by (simp add: contract_text_def mechanism_line_def)

lemma generate_contract_market_ast:
  "generate_contract lim (market_ast q a f) = Inr (contract_text ''pool'')"
  by (simp add: generate_contract_def generate_contract_fee_def subscript_def dict_get_def
      market_ast_def py_str_PStr)

lemma generate_contract_fee_market_ast:
  "generate_contract_fee lim (market_ast q a f) = Inr (PInt f)"
  by (simp add: generate_contract_fee_def subscript_def dict_get_def market_ast_def)

lemma MarketTransformer_fee_digits:
  assumes "ds \<noteq> []" "list_all is_digit ds"
  shows "MarketTransformer_fee lim [ds] =
           (if 640 < length ds \<and> 0 < lim \<and> lim < length ds then Inl ValueError
            else Inr [(''fee'', PInt (int (digits_value 0 ds)))])"
  using assms by (simp add: MarketTransformer_fee_def and_then_def py_int_digits_cases)



subsection \<open>Facts about the lexer and the parser\<close>

lemma and_then_Inr [simp]: "and_then (Inr x) f = f x"
  by (simp add: and_then_def)

lemma and_then_Inl [simp]: "and_then (Inl e) f = Inl e"
  by (simp add: and_then_def)

lemma and_then_eq_Inr: "and_then m f = Inr y \<longleftrightarrow> (\<exists>x. m = Inr x \<and> f x = Inr y)"
  by (cases m) simp_all


lemma fields_four:
  "MarketTransformer_fields [MarketTransformer_outcomes x, [(''oracle'', PStr a)],
      [(''fee'', PInt k)], MarketTransformer_trading_mechanism y] =
   [(''outcomes'', PList [''Yes'', ''No'']), (''oracle'', PStr a), (''fee'', PInt k),
    (''mechanism'', PStr ''pool'')]"
  by (simp add: MarketTransformer_fields_def MarketTransformer_outcomes_def
      MarketTransformer_trading_mechanism_def)

lemma market_of_fields:
  "MarketTransformer_market [Token s, Dict
     [(''outcomes'', PList [''Yes'', ''No'']), (''oracle'', PStr a), (''fee'', PInt k),
      (''mechanism'', PStr ''pool'')]] = Inr (market_ast (strip s (CHR 0x22)) a k)"
  by (simp add: MarketTransformer_market_def subscript_def dict_get_def market_ast_def)

lemma is_ws_simps:
  "is_ws c \<Longrightarrow> \<not> is_digit c"
  "is_ws c \<Longrightarrow> \<not> is_hex c"
  "is_ws c \<Longrightarrow> c \<noteq> CHR 0x22"
  by (auto simp: is_ws_def is_digit_def is_hex_def)

lemma dropWhile_ws:
  assumes "list_all is_ws w" "x \<noteq> []" "\<not> is_ws (hd x)"
  shows "dropWhile is_ws (w @ x) = x" and "takeWhile is_ws (w @ x) = w"
proof -
  have 1: "dropWhile is_ws x = x" "takeWhile is_ws x = []"
    using assms by (cases x; simp)+
  show "dropWhile is_ws (w @ x) = x"
    using assms 1 by (simp add: dropWhile_append list_all_iff)
  show "takeWhile is_ws (w @ x) = w"
    using assms 1 by (simp add: takeWhile_append list_all_iff)
qed

lemma dropWhile_all_ws: "list_all is_ws w \<Longrightarrow> dropWhile is_ws w = []"
  by (simp add: list_all_iff)

lemma match_Lit: "match_terminal (Lit s) (s @ r) = Some (s, r)"
  by simp

lemma match_STRING:
  "CHR 0x22 \<notin> set q \<Longrightarrow>
   match_terminal STRING (([CHR 0x22] @ q @ [CHR 0x22]) @ r) = Some ([CHR 0x22] @ q @ [CHR 0x22], r)"
  by (simp add: dropWhile_append takeWhile_append)

lemma match_ADDRESS:
  assumes "take 2 a = ''0x''" "length a = 42" "list_all is_hex (drop 2 a)"
  shows "match_terminal ADDRESS (a @ r) = Some (a, r)"
  using assms by simp

lemma match_NUMBER:
  assumes "n \<noteq> []" "list_all is_digit n" "r = [] \<or> \<not> is_digit (hd r)"
  shows "match_terminal NUMBER (n @ r) = Some (n, r)"
proof -
  have "takeWhile is_digit r = []" "dropWhile is_digit r = r"
    using assms(3) by (cases r; simp)+
  then show ?thesis
    using assms by (simp add: takeWhile_append dropWhile_append list_all_iff)
qed

lemma next_token_ok:
  assumes "remaining st = w @ tok @ r"
      and "list_all is_ws w" and "tok \<noteq> []" and "\<not> is_ws (hd tok)"
      and "match_terminal t (tok @ r) = Some (tok, r)"
  shows "\<exists>st'. next_token t st = Inr (tok, st') \<and> remaining st' = r"
proof -
  have "dropWhile is_ws (remaining st) = tok @ r"
    using assms dropWhile_ws(1)[of w "tok @ r"] by simp
  then show ?thesis
    using assms by (simp add: next_token_def Let_def)
qed

lemma expect_ok:
  assumes "remaining st = w @ s @ r"
      and "list_all is_ws w" and "s \<noteq> []" and "\<not> is_ws (hd s)"
  shows "\<exists>st'. expect s st = Inr st' \<and> remaining st' = r"
  using next_token_ok[OF assms match_Lit] by (auto simp: expect_def)

lemma end_of_input_ok:
  "list_all is_ws (remaining st) \<Longrightarrow> end_of_input st = Inr ()"
  by (simp add: end_of_input_def dropWhile_all_ws)

lemma match_terminal_sound:
  assumes "match_terminal t inp = Some (tok, rest)"
  shows "inp = tok @ rest \<and>
         (case t of
            Lit s \<Rightarrow> tok = s
          | STRING \<Rightarrow> \<exists>q. tok = [CHR 0x22] @ q @ [CHR 0x22] \<and> CHR 0x22 \<notin> set q
          | ADDRESS \<Rightarrow> take 2 tok = ''0x'' \<and> length tok = 42 \<and> list_all is_hex (drop 2 tok)
          | NUMBER \<Rightarrow> tok \<noteq> [] \<and> list_all is_digit tok
          | END \<Rightarrow> False)"
proof (cases t)
  case (Lit s)
  with assms show ?thesis
    by (auto simp: prefix_def split: if_splits)
next
  case STRING
  with assms obtain cs x where inp: "inp = CHR 0x22 # cs"
      and d: "dropWhile (\<lambda>x. x \<noteq> CHR 0x22) cs = x # rest"
      and tok: "tok = CHR 0x22 # takeWhile (\<lambda>x. x \<noteq> CHR 0x22) cs @ [CHR 0x22]"
    by (auto split: list.splits if_splits)
  have x: "x = CHR 0x22"
    using d hd_dropWhile[of "\<lambda>x. x \<noteq> CHR 0x22" cs] by auto
  have "cs = takeWhile (\<lambda>x. x \<noteq> CHR 0x22) cs @ dropWhile (\<lambda>x. x \<noteq> CHR 0x22) cs"
    by simp
  with d x have "cs = takeWhile (\<lambda>x. x \<noteq> CHR 0x22) cs @ CHR 0x22 # rest"
    by simp
  moreover have "CHR 0x22 \<notin> set (takeWhile (\<lambda>x. x \<noteq> CHR 0x22) cs)"
    by (auto dest: set_takeWhileD)
  ultimately show ?thesis
    using STRING inp tok by auto
next
  case ADDRESS
  with assms show ?thesis
    by (auto split: if_splits simp: min_def take_drop)
next
  case NUMBER
  with assms show ?thesis
    by (auto split: if_splits simp: list_all_iff dest: set_takeWhileD)
next
  case END
  with assms show ?thesis by simp
qed

lemma next_token_sound:
  assumes "next_token t st = Inr (tok, st')"
  shows "list_all is_ws (takeWhile is_ws (remaining st)) \<and>
         remaining st = takeWhile is_ws (remaining st) @ tok @ remaining st' \<and>
         match_terminal t (tok @ remaining st') = Some (tok, remaining st')"
proof -
  from assms have m: "match_terminal t (dropWhile is_ws (remaining st)) = Some (tok, remaining st')"
    by (auto simp: next_token_def Let_def split: if_splits option.splits)
  from match_terminal_sound[OF m] have "dropWhile is_ws (remaining st) = tok @ remaining st'"
    by simp
  moreover have "remaining st = takeWhile is_ws (remaining st) @ dropWhile is_ws (remaining st)"
    by simp
  ultimately have "remaining st = takeWhile is_ws (remaining st) @ tok @ remaining st'"
    by simp
  moreover have "list_all is_ws (takeWhile is_ws (remaining st))"
    by (auto simp: list_all_iff dest: set_takeWhileD)
  ultimately show ?thesis
    using m \<open>dropWhile is_ws (remaining st) = tok @ remaining st'\<close> by simp
qed

lemma next_token_error:
  "next_token t st = Inl e \<Longrightarrow> \<exists>l c. e = UnexpectedInput l c [t]"
  by (auto simp: next_token_def Let_def split: if_splits option.splits)

lemma end_of_input_sound:
  "end_of_input st = Inr u \<Longrightarrow> list_all is_ws (remaining st)"
proof -
  assume "end_of_input st = Inr u"
  then have "dropWhile is_ws (remaining st) = []"
    by (auto simp: end_of_input_def Let_def split: if_splits)
  then show ?thesis
    by (simp add: list_all_iff dropWhile_eq_Nil_conv)
qed

lemma strip_quotes:
  assumes "CHR 0x22 \<notin> set q"
  shows "strip ([CHR 0x22] @ q @ [CHR 0x22]) (CHR 0x22) = q"
proof (cases q rule: rev_cases)
  case Nil
  then show ?thesis by (simp add: strip_def rstrip_def)
next
  case (snoc ys y)
  with assms have y: "y \<noteq> CHR 0x22" and ys: "CHR 0x22 \<notin> set ys"
    by auto
  have "dropWhile (\<lambda>x. x = CHR 0x22) (ys @ [y, CHR 0x22]) = ys @ [y, CHR 0x22]"
    using y ys by (cases ys) auto
  then show ?thesis
    using snoc y by (simp add: strip_def rstrip_def)
qed

lemma list_of_length_20:
  assumes "length (ws :: 'a list) = 20"
  obtains w0 w1 w2 w3 w4 w5 w6 w7 w8 w9 w10 w11 w12 w13 w14 w15 w16 w17 w18 w19
  where "ws = [w0, w1, w2, w3, w4, w5, w6, w7, w8, w9, w10, w11, w12, w13, w14, w15, w16,
               w17, w18, w19]"
  using assms by (auto simp: numeral_eq_Suc length_Suc_conv)

lemma blanks_then_char:
  assumes "list_all is_ws w" "\<not> is_digit c"
  shows "w @ c # r = [] \<or> \<not> is_digit (hd (w @ c # r))"
  using assms by (cases w) (auto simp: is_ws_simps)

lemma lark_parse_conforming:
  assumes "conforming_parts ws q a n"
  shows "lark_parse lim (document ws q a n) =
           (if 640 < length n \<and> 0 < lim \<and> lim < length n then Inl ValueError
            else Inr (market_ast q a (int (digits_value 0 n))))"
proof -
  from assms have len: "length ws = 20"
    by (simp add: conforming_parts_def)
  obtain w0 w1 w2 w3 w4 w5 w6 w7 w8 w9 w10 w11 w12 w13 w14 w15 w16 w17 w18 w19
    where ws: "ws = [w0, w1, w2, w3, w4, w5, w6, w7, w8, w9, w10, w11, w12, w13, w14, w15,
                     w16, w17, w18, w19]"
    by (rule list_of_length_20[OF len])
  from assms ws have W: "list_all is_ws w0" "list_all is_ws w1" "list_all is_ws w2"
      "list_all is_ws w3" "list_all is_ws w4" "list_all is_ws w5" "list_all is_ws w6"
      "list_all is_ws w7" "list_all is_ws w8" "list_all is_ws w9" "list_all is_ws w10"
      "list_all is_ws w11" "list_all is_ws w12" "list_all is_ws w13" "list_all is_ws w14"
      "list_all is_ws w15" "list_all is_ws w16" "list_all is_ws w17" "list_all is_ws w18"
      "list_all is_ws w19"
    by (simp_all add: conforming_parts_def)
  from assms have q: "CHR 0x22 \<notin> set q"
    and a: "take 2 a = ''0x''" "length a = 42" "list_all is_hex (drop 2 a)"
    and n: "n \<noteq> []" "list_all is_digit n"
    by (simp_all add: conforming_parts_def)
  define qt where "qt = [CHR 0x22] @ q @ [CHR 0x22]"
  define r19 where "r19 = w19"
  define r18 where "r18 = w18 @ ''}'' @ r19"
  define r17 where "r17 = w17 @ '';'' @ r18"
  define r16 where "r16 = w16 @ ''pool'' @ r17"
  define r15 where "r15 = w15 @ ''trading_mechanism:'' @ r16"
  define r14 where "r14 = w14 @ '';'' @ r15"
  define r13 where "r13 = w13 @ ''%'' @ r14"
  define r12 where "r12 = w12 @ n @ r13"
  define r11 where "r11 = w11 @ ''fee:'' @ r12"
  define r10 where "r10 = w10 @ '';'' @ r11"
  define r9 where "r9 = w9 @ a @ r10"
  define r8 where "r8 = w8 @ ''oracle:'' @ r9"
  define r7 where "r7 = w7 @ '';'' @ r8"
  define r6 where "r6 = w6 @ ''No'' @ r7"
  define r5 where "r5 = w5 @ '','' @ r6"
  define r4 where "r4 = w4 @ ''Yes'' @ r5"
  define r3 where "r3 = w3 @ ''outcomes:'' @ r4"
  define r2 where "r2 = w2 @ ''{'' @ r3"
  define r1 where "r1 = w1 @ qt @ r2"
  define r0 where "r0 = w0 @ ''market'' @ r1"
  have doc: "document ws q a n = r0"
    by (simp add: document_def document_tokens_def ws r0_def r1_def r2_def r3_def r4_def r5_def
        r6_def r7_def r8_def r9_def r10_def r11_def r12_def r13_def r14_def r15_def r16_def
        r17_def r18_def r19_def qt_def)
  have nw: "\<not> is_ws (hd qt)" "qt \<noteq> []" "\<not> is_ws (hd a)" "a \<noteq> []" "\<not> is_ws (hd n)"
  proof -
    show "\<not> is_ws (hd qt)" "qt \<noteq> []"
      by (simp_all add: qt_def is_ws_def)
    from a(2) show "a \<noteq> []" by auto
    from a(1) a(2) have "hd a = CHR ''0''"
      by (cases a) auto
    then show "\<not> is_ws (hd a)" by (simp add: is_ws_def)
    from n have "is_digit (hd n)" by (cases n) auto
    then show "\<not> is_ws (hd n)" using is_ws_simps(1) by blast
  qed
  have lit: "\<not> is_ws (CHR ''m'')" "\<not> is_ws (CHR ''{'')" "\<not> is_ws (CHR ''o'')"
      "\<not> is_ws (CHR ''Y'')" "\<not> is_ws (CHR '','')" "\<not> is_ws (CHR ''N'')"
      "\<not> is_ws (CHR '';'')" "\<not> is_ws (CHR ''f'')" "\<not> is_ws (CHR ''%'')"
      "\<not> is_ws (CHR ''t'')" "\<not> is_ws (CHR ''p'')" "\<not> is_ws (CHR ''}'')"
    by (simp_all add: is_ws_def)
  from expect_ok[of "start_state r0" w0 "''market''" r1] W lit
  obtain s1 where e1: "expect ''market'' (start_state r0) = Inr s1" and m1: "remaining s1 = r1"
    by (auto simp: start_state_def r0_def)
  from next_token_ok[of s1 w1 qt r2 STRING] W nw match_STRING[OF q, of r2]
  obtain s2 where e2: "next_token STRING s1 = Inr (qt, s2)" and m2: "remaining s2 = r2"
    by (auto simp: m1 r1_def qt_def)
  from expect_ok[of s2 w2 "''{''" r3] W lit
  obtain s3 where e3: "expect ''{'' s2 = Inr s3" and m3: "remaining s3 = r3"
    by (auto simp: m2 r2_def)
  from expect_ok[of s3 w3 "''outcomes:''" r4] W lit
  obtain s4 where e4: "expect ''outcomes:'' s3 = Inr s4" and m4: "remaining s4 = r4"
    by (auto simp: m3 r3_def)
  from expect_ok[of s4 w4 "''Yes''" r5] W lit
  obtain s5 where e5: "expect ''Yes'' s4 = Inr s5" and m5: "remaining s5 = r5"
    by (auto simp: m4 r4_def)
  from expect_ok[of s5 w5 "'',''" r6] W lit
  obtain s6 where e6: "expect '','' s5 = Inr s6" and m6: "remaining s6 = r6"
    by (auto simp: m5 r5_def)
  from expect_ok[of s6 w6 "''No''" r7] W lit
  obtain s7 where e7: "expect ''No'' s6 = Inr s7" and m7: "remaining s7 = r7"
    by (auto simp: m6 r6_def)
  from expect_ok[of s7 w7 "'';''" r8] W lit
  obtain s8 where e8: "expect '';'' s7 = Inr s8" and m8: "remaining s8 = r8"
    by (auto simp: m7 r7_def)
  from expect_ok[of s8 w8 "''oracle:''" r9] W lit
  obtain s9 where e9: "expect ''oracle:'' s8 = Inr s9" and m9: "remaining s9 = r9"
    by (auto simp: m8 r8_def)
  from next_token_ok[of s9 w9 a r10 ADDRESS] W nw match_ADDRESS[OF a, of r10]
  obtain s10 where e10: "next_token ADDRESS s9 = Inr (a, s10)" and m10: "remaining s10 = r10"
    by (auto simp: m9 r9_def)
  from expect_ok[of s10 w10 "'';''" r11] W lit
  obtain s11 where e11: "expect '';'' s10 = Inr s11" and m11: "remaining s11 = r11"
    by (auto simp: m10 r10_def)
  from expect_ok[of s11 w11 "''fee:''" r12] W lit
  obtain s12 where e12: "expect ''fee:'' s11 = Inr s12" and m12: "remaining s12 = r12"
    by (auto simp: m11 r11_def)
  have "r13 = [] \<or> \<not> is_digit (hd r13)"
    using blanks_then_char[of w13 "CHR ''%''" r14] W by (simp add: r13_def is_digit_def)
  from next_token_ok[of s12 w12 n r13 NUMBER] W nw n match_NUMBER[OF n this]
  obtain s13 where e13: "next_token NUMBER s12 = Inr (n, s13)" and m13: "remaining s13 = r13"
    by (auto simp: m12 r12_def)
  from expect_ok[of s13 w13 "''%''" r14] W lit
  obtain s14 where e14: "expect ''%'' s13 = Inr s14" and m14: "remaining s14 = r14"
    by (auto simp: m13 r13_def)
  from expect_ok[of s14 w14 "'';''" r15] W lit
  obtain s15 where e15: "expect '';'' s14 = Inr s15" and m15: "remaining s15 = r15"
    by (auto simp: m14 r14_def)
  from expect_ok[of s15 w15 "''trading_mechanism:''" r16] W lit
  obtain s16 where e16: "expect ''trading_mechanism:'' s15 = Inr s16"
    and m16: "remaining s16 = r16"
    by (auto simp: m15 r15_def)
  from expect_ok[of s16 w16 "''pool''" r17] W lit
  obtain s17 where e17: "expect ''pool'' s16 = Inr s17" and m17: "remaining s17 = r17"
    by (auto simp: m16 r16_def)
  from expect_ok[of s17 w17 "'';''" r18] W lit
  obtain s18 where e18: "expect '';'' s17 = Inr s18" and m18: "remaining s18 = r18"
    by (auto simp: m17 r17_def)
  from expect_ok[of s18 w18 "''}''" r19] W lit
  obtain s19 where e19: "expect ''}'' s18 = Inr s19" and m19: "remaining s19 = r19"
    by (auto simp: m18 r18_def)
  have e20: "end_of_input s19 = Inr ()"
    using W by (simp add: end_of_input_ok m19 r19_def)
  have sq: "strip qt (CHR 0x22) = q"
    using strip_quotes[OF q] by (simp add: qt_def)
  show ?thesis
    unfolding doc lark_parse_def
    by (simp add: e1 e2 e3 e4 e5 e6 e7 e8 e9 e10 e11 e12 e13 e14 e15 e16 e17 e18 e19 e20
        MarketTransformer_string_def MarketTransformer_address_def MarketTransformer_number_def
        MarketTransformer_oracle_def MarketTransformer_fee_digits[OF n] MarketTransformer_start_def
        fields_four market_of_fields sq)
qed

lemma and_then_assoc: "and_then (and_then m g) f = and_then m (\<lambda>x. and_then (g x) f)"
  by (cases m) simp_all

lemma lark_parse_lex_all:
  "lark_parse lim txt =
     and_then (lex_all [Lit ''market'', STRING, Lit ''{'', Lit ''outcomes:'', Lit ''Yes'',
        Lit '','', Lit ''No'', Lit '';'', Lit ''oracle:'', ADDRESS, Lit '';'', Lit ''fee:'',
        NUMBER, Lit ''%'', Lit '';'', Lit ''trading_mechanism:''] (start_state txt)) (\<lambda>r.
     and_then (py_int lim (fst r ! 12)) (\<lambda>k.
     and_then (lex_all [Lit ''pool'', Lit '';'', Lit ''}''] (snd r)) (\<lambda>r'.
     and_then (end_of_input (snd r')) (\<lambda>_.
       Inr (market_ast (strip (fst r ! 1) (CHR 0x22)) (fst r ! 9) k)))))"
  by (simp add: lark_parse_def expect_def and_then_assoc case_prod_unfold
      MarketTransformer_string_def MarketTransformer_address_def MarketTransformer_number_def
      MarketTransformer_oracle_def MarketTransformer_fee_def MarketTransformer_start_def
      fields_four market_of_fields)

lemma weave_append:
  "length ws = length ts \<Longrightarrow> weave (ws @ ws') (ts @ ts') = weave ws ts @ weave ws' ts'"
  by (induction ws ts rule: list_induct2) simp_all

lemma lex_all_sound:
  assumes "lex_all ts st = Inr (toks, st')"
  shows "\<exists>ws. length ws = length ts \<and> length toks = length ts \<and>
           list_all (list_all is_ws) ws \<and>
           remaining st = weave ws toks @ remaining st' \<and>
           list_all2 (\<lambda>t tok. case t of
                Lit s \<Rightarrow> tok = s
              | STRING \<Rightarrow> \<exists>q. tok = [CHR 0x22] @ q @ [CHR 0x22] \<and> CHR 0x22 \<notin> set q
              | ADDRESS \<Rightarrow> take 2 tok = ''0x'' \<and> length tok = 42 \<and> list_all is_hex (drop 2 tok)
              | NUMBER \<Rightarrow> tok \<noteq> [] \<and> list_all is_digit tok
              | END \<Rightarrow> False) ts toks"
  using assms
proof (induction ts arbitrary: st toks)
  case Nil
  then show ?case by simp
next
  case (Cons t ts)
  from Cons.prems obtain tok s1 toks1 where
      n: "next_token t st = Inr (tok, s1)" and
      l: "lex_all ts s1 = Inr (toks1, st')" and
      toks: "toks = tok # toks1"
    by (auto simp: and_then_eq_Inr)
  from Cons.IH[OF l] obtain ws where ws:
      "length ws = length ts" "length toks1 = length ts" "list_all (list_all is_ws) ws"
      "remaining s1 = weave ws toks1 @ remaining st'"
      "list_all2 (\<lambda>t tok. case t of
                Lit s \<Rightarrow> tok = s
              | STRING \<Rightarrow> \<exists>q. tok = [CHR 0x22] @ q @ [CHR 0x22] \<and> CHR 0x22 \<notin> set q
              | ADDRESS \<Rightarrow> take 2 tok = ''0x'' \<and> length tok = 42 \<and> list_all is_hex (drop 2 tok)
              | NUMBER \<Rightarrow> tok \<noteq> [] \<and> list_all is_digit tok
              | END \<Rightarrow> False) ts toks1"
    by blast
  from next_token_sound[OF n] have
      w: "list_all is_ws (takeWhile is_ws (remaining st))" and
      r: "remaining st = takeWhile is_ws (remaining st) @ tok @ remaining s1" and
      m: "match_terminal t (tok @ remaining s1) = Some (tok, remaining s1)"
    by simp_all
  from match_terminal_sound[OF m] have
    sh: "case t of
                Lit s \<Rightarrow> tok = s
              | STRING \<Rightarrow> \<exists>q. tok = [CHR 0x22] @ q @ [CHR 0x22] \<and> CHR 0x22 \<notin> set q
              | ADDRESS \<Rightarrow> take 2 tok = ''0x'' \<and> length tok = 42 \<and> list_all is_hex (drop 2 tok)
              | NUMBER \<Rightarrow> tok \<noteq> [] \<and> list_all is_digit tok
              | END \<Rightarrow> False"
    by simp
  let ?ws = "takeWhile is_ws (remaining st) # ws"
  have "remaining st = weave ?ws toks @ remaining st'"
    using r ws(4) toks by simp
  with ws w sh toks show ?case
    by (intro exI[of _ ?ws]) simp
qed

lemma lark_parse_sound:
  assumes "lark_parse lim txt = Inr ast"
  shows "\<exists>ws q a n. conforming_parts ws q a n \<and> txt = document ws q a n \<and>
           ast = market_ast q a (int (digits_value 0 n)) \<and>
           \<not> (640 < length n \<and> 0 < lim \<and> lim < length n)"
proof -
  let ?ts1 = "[Lit ''market'', STRING, Lit ''{'', Lit ''outcomes:'', Lit ''Yes'',
        Lit '','', Lit ''No'', Lit '';'', Lit ''oracle:'', ADDRESS, Lit '';'', Lit ''fee:'',
        NUMBER, Lit ''%'', Lit '';'', Lit ''trading_mechanism:'']"
  let ?ts2 = "[Lit ''pool'', Lit '';'', Lit ''}'']"
  from assms obtain toks s k toks' s' where
      l1: "lex_all ?ts1 (start_state txt) = Inr (toks, s)" and
      pi: "py_int lim (toks ! 12) = Inr k" and
      l2: "lex_all ?ts2 s = Inr (toks', s')" and
      eo: "end_of_input s' = Inr ()" and
      ast: "ast = market_ast (strip (toks ! 1) (CHR 0x22)) (toks ! 9) k"
    unfolding lark_parse_lex_all by (auto simp: and_then_eq_Inr)
  from lex_all_sound[OF l1] obtain ws1 where
      len1: "length ws1 = length ?ts1" and
      ws1: "list_all (list_all is_ws) ws1"
        "remaining (start_state txt) = weave ws1 toks @ remaining s" and
      la1: "list_all2 (\<lambda>t tok. case t of
                Lit s \<Rightarrow> tok = s
              | STRING \<Rightarrow> \<exists>q. tok = [CHR 0x22] @ q @ [CHR 0x22] \<and> CHR 0x22 \<notin> set q
              | ADDRESS \<Rightarrow> take 2 tok = ''0x'' \<and> length tok = 42 \<and> list_all is_hex (drop 2 tok)
              | NUMBER \<Rightarrow> tok \<noteq> [] \<and> list_all is_digit tok
              | END \<Rightarrow> False) ?ts1 toks"
    by blast
  from la1 obtain q a n where
      toks: "toks = [''market'', [CHR 0x22] @ q @ [CHR 0x22], ''{'', ''outcomes:'', ''Yes'',
          '','', ''No'', '';'', ''oracle:'', a, '';'', ''fee:'', n, ''%'', '';'',
          ''trading_mechanism:'']" and
      q: "CHR 0x22 \<notin> set q" and
      a: "take 2 a = ''0x''" "length a = 42" "list_all is_hex (drop 2 a)" and
      n: "n \<noteq> []" "list_all is_digit n"
    by (auto simp: list_all2_Cons1)
  from lex_all_sound[OF l2] obtain ws2 where
      len2: "length ws2 = length ?ts2" and
      ws2: "list_all (list_all is_ws) ws2"
        "remaining s = weave ws2 toks' @ remaining s'" and
      la2: "list_all2 (\<lambda>t tok. case t of
                Lit s \<Rightarrow> tok = s
              | STRING \<Rightarrow> \<exists>q. tok = [CHR 0x22] @ q @ [CHR 0x22] \<and> CHR 0x22 \<notin> set q
              | ADDRESS \<Rightarrow> take 2 tok = ''0x'' \<and> length tok = 42 \<and> list_all is_hex (drop 2 tok)
              | NUMBER \<Rightarrow> tok \<noteq> [] \<and> list_all is_digit tok
              | END \<Rightarrow> False) ?ts2 toks'"
    by blast
  from la2 have toks': "toks' = [''pool'', '';'', ''}'']"
    by (auto simp: list_all2_Cons1)
  from end_of_input_sound[OF eo] have w3: "list_all is_ws (remaining s')" .
  let ?ws = "ws1 @ ws2 @ [remaining s']"
  have c: "conforming_parts ?ws q a n"
    using len1 len2 ws1 ws2 w3 q a n by (simp add: conforming_parts_def)
  have "length ws1 = length toks" "length ws2 = length toks'"
    using len1 len2 toks toks' by simp_all
  then have "weave ?ws (toks @ toks' @ []) = weave ws1 toks @ weave ws2 toks' @ remaining s'"
    by (simp only: weave_append) simp
  moreover have "document_tokens q a n = toks @ toks' @ []"
    by (simp add: document_tokens_def toks toks')
  ultimately have d: "txt = document ?ws q a n"
    using ws1(2) ws2(2) by (simp add: document_def start_state_def)
  have n12: "toks ! 12 = n" and q1: "toks ! 1 = [CHR 0x22] @ q @ [CHR 0x22]" and a9: "toks ! 9 = a"
    by (simp_all add: toks)
  from pi n12 py_int_digits_cases[OF n, of lim] have
    k: "k = int (digits_value 0 n)" and lim: "\<not> (640 < length n \<and> 0 < lim \<and> lim < length n)"
    by (auto split: if_splits)
  have "ast = market_ast q a (int (digits_value 0 n))"
    using ast k a9 q1 strip_quotes[OF q] by simp
  with c d lim show ?thesis by blast
qed



















lemma example_document_parts:
  "example_document =
     document ['''', '' '', '' '', '' '', '' '', '''', '' '', '''', '' '', '' '', '''', '' '',
               '' '', '''', '''', '' '', '' '', '''', '' '', '''']
       ''Will ETH reach $5000 in 2024?'' ''0x1234567890123456789012345678901234567890'' ''1''"
  by (simp add: example_document_def document_def document_tokens_def)

lemma example_document_conforming:
  "conforming_parts ['''', '' '', '' '', '' '', '' '', '''', '' '', '''', '' '', '' '', '''',
               '' '', '' '', '''', '''', '' '', '' '', '''', '' '', '''']
       ''Will ETH reach $5000 in 2024?'' ''0x1234567890123456789012345678901234567890'' ''1''"
  by (simp add: conforming_parts_def is_ws_def is_hex_def is_digit_def)

lemma lark_parse_example:
  "lark_parse lim example_document =
     Inr (market_ast ''Will ETH reach $5000 in 2024?''
            ''0x1234567890123456789012345678901234567890'' 1)"
  using lark_parse_conforming[OF example_document_conforming, of lim]
  by (simp add: example_document_parts digit_val_def)

lemma oracle_not_in_contract_text:
  "\<not> sublist ''0x1234567890123456789012345678901234567890'' (contract_text ''pool'')"
proof
  assume "sublist ''0x1234567890123456789012345678901234567890'' (contract_text ''pool'')"
  then have "set ''0x1234567890123456789012345678901234567890'' \<subseteq> set (contract_text ''pool'')"
    by (rule set_mono_sublist)
  then have "CHR ''9'' \<in> set (contract_text ''pool'')"
    by auto
  moreover have "CHR ''9'' \<notin> set (contract_text ''pool'')"
    by (rule nine_contract_text) simp
  ultimately show False by simp
qed

lemma dict_get_market_ast:
  "dict_get (market_ast q a f) ''question'' = Some (PStr q)"
  "dict_get (market_ast q a f) ''outcomes'' = Some (PList [''Yes'', ''No''])"
  "dict_get (market_ast q a f) ''oracle'' = Some (PStr a)"
  "dict_get (market_ast q a f) ''fee'' = Some (PInt f)"
  "dict_get (market_ast q a f) ''mechanism'' = Some (PStr ''pool'')"
  by (simp_all add: dict_get_def market_ast_def)

section \<open>The code generator: claims\<close>

text \<open>
  C6. Calling \<^verbatim>\<open>generate_contract\<close> twice on the same market dictionary gives the same
  text, byte for byte, also under two different interpreter settings: the text is the fixed
  template around the text of \<^verbatim>\<open>market['mechanism']\<close>, and nothing else enters it (no
  time stamp, no random identifier, nothing of the environment).
\<close>

theorem C6_generate_contract_deterministic:
  assumes "generate_contract lim1 market = Inr t1"
      and "generate_contract lim2 market = Inr t2"
  shows "t1 = t2 \<and>
         (\<exists>v. dict_get market ''mechanism'' = Some v \<and> t1 = contract_text (str_text v))"
  using assms by (auto simp: generate_contract_Inr)

theorem C6_generate_contract_deterministic_witness:
  "generate_contract 4300 [(''question'', PStr ''Q?''), (''fee'', PInt 100),
       (''mechanism'', PStr ''pool'')] = Inr (contract_text ''pool'') \<and>
   generate_contract 0 [(''question'', PStr ''Q?''), (''fee'', PInt 100),
       (''mechanism'', PStr ''pool'')] = Inr (contract_text ''pool'') \<and>
   (\<exists>v. dict_get [(''question'', PStr ''Q?''), (''fee'', PInt 100),
       (''mechanism'', PStr ''pool'')] ''mechanism'' = Some v \<and>
       contract_text ''pool'' = contract_text (str_text v))"
proof -
  let ?m = "[(''question'', PStr ''Q?''), (''fee'', PInt 100), (''mechanism'', PStr ''pool'')]"
  have a: "generate_contract 4300 ?m = Inr (contract_text ''pool'')"
    by (simp add: generate_contract_def generate_contract_fee_def subscript_def dict_get_def
        py_str_PStr)
  have b: "generate_contract 0 ?m = Inr (contract_text ''pool'')"
    by (simp add: generate_contract_def generate_contract_fee_def subscript_def dict_get_def
        py_str_PStr)
  from C6_generate_contract_deterministic [OF a b] a b show ?thesis
    by blast
qed




text \<open>
  C3, as amended. The generator has a conversion of its own: a fee given as a string that
  ends in \<^verbatim>\<open>%\<close> becomes \<^verbatim>\<open>int(fee.rstrip('%')) * 100\<close>, so the text \<^verbatim>\<open>f%\<close> of a numeral
  \<open>f\<close> (within the interpreter's limit on digits) becomes \<open>100 * f\<close>; a fee that
  is an \<^verbatim>\<open>int\<close> is left as it is. The fee is not emitted: the generated text is the
  template around the mechanism, whatever the fee.
\<close>

theorem C3_generator_converts_percent_strings:
  "(dict_get m ''fee'' = Some (PStr (ds @ ''%'')) \<and> ds \<noteq> [] \<and> list_all is_digit ds \<and>
      (length ds \<le> 640 \<or> lim = 0 \<or> length ds \<le> lim)
      \<longrightarrow> generate_contract_fee lim m = Inr (PInt (int (digits_value 0 ds) * 100))) \<and>
   (dict_get m ''fee'' = Some (PInt n) \<longrightarrow> generate_contract_fee lim m = Inr (PInt n)) \<and>
   (generate_contract lim m = Inr t
      \<longrightarrow> (\<exists>v. dict_get m ''mechanism'' = Some v \<and> t = contract_text (str_text v)))"
proof (intro conjI impI)
  assume a: "dict_get m ''fee'' = Some (PStr (ds @ ''%'')) \<and> ds \<noteq> [] \<and> list_all is_digit ds \<and>
      (length ds \<le> 640 \<or> lim = 0 \<or> length ds \<le> lim)"
  then have "py_int lim ds = Inr (int (digits_value 0 ds))"
    by (auto simp: py_int_digits_cases)
  with a show "generate_contract_fee lim m = Inr (PInt (int (digits_value 0 ds) * 100))"
    by (simp add: generate_contract_fee_str rstrip_digits_percent endswith_def)
next
  assume "dict_get m ''fee'' = Some (PInt n)"
  then show "generate_contract_fee lim m = Inr (PInt n)"
    by (rule generate_contract_fee_int)
next
  assume "generate_contract lim m = Inr t"
  then show "\<exists>v. dict_get m ''mechanism'' = Some v \<and> t = contract_text (str_text v)"
    by (auto simp: generate_contract_Inr)
qed

theorem C3_generator_converts_percent_strings_witness:
  "generate_contract_fee 4300 [(''fee'', PStr ''25%''), (''mechanism'', PStr ''pool'')]
     = Inr (PInt 2500) \<and>
   generate_contract_fee 4300 [(''fee'', PInt 25), (''mechanism'', PStr ''pool'')]
     = Inr (PInt 25) \<and>
   generate_contract 4300 [(''fee'', PInt 25), (''mechanism'', PStr ''pool'')]
     = Inr (contract_text ''pool'')"
proof -
  let ?m = "[(''fee'', PStr ''25%''), (''mechanism'', PStr ''pool'')]"
  let ?m' = "[(''fee'', PInt 25), (''mechanism'', PStr ''pool'')]"
  have v: "int (digits_value 0 ''25'') * 100 = 2500"
    by (simp add: digit_val_def)
  have g: "generate_contract 4300 ?m' = Inr (contract_text ''pool'')"
    by (simp add: generate_contract_def generate_contract_fee_def subscript_def dict_get_def)
  have 1: "generate_contract_fee 4300 ?m = Inr (PInt 2500)"
    using C3_generator_converts_percent_strings [of ?m "''25''" 4300 0 undefined] v
    by (simp add: dict_get_def is_digit_def)
  have 2: "generate_contract_fee 4300 ?m' = Inr (PInt 25)"
    using C3_generator_converts_percent_strings [of ?m' "[]" 4300 25 undefined]
    by (simp add: dict_get_def)
  from 1 2 g show ?thesis by simp
qed

text \<open>
  Where the specification's sentence fails: given the fee \<^verbatim>\<open>"1%"\<close> the generator converts
  it itself, to 100; and two dictionaries that differ in the fee alone give the same text.
\<close>

theorem C3_counterexample:
  "generate_contract_fee 4300 [(''fee'', PStr ''1%''), (''mechanism'', PStr ''pool'')]
     = Inr (PInt 100) \<and>
   generate_contract 4300 [(''fee'', PInt 100), (''mechanism'', PStr ''pool'')]
     = generate_contract 4300 [(''fee'', PInt 250), (''mechanism'', PStr ''pool'')]"
proof -
  have "generate_contract_fee 4300 [(''fee'', PStr ''1%''), (''mechanism'', PStr ''pool'')]
     = Inr (PInt 100)"
    by code_simp
  moreover have "generate_contract 4300 [(''fee'', PInt 100), (''mechanism'', PStr ''pool'')]
     = generate_contract 4300 [(''fee'', PInt 250), (''mechanism'', PStr ''pool'')]"
    by (simp add: generate_contract_def generate_contract_fee_def subscript_def dict_get_def)
  ultimately show ?thesis by simp
qed

text \<open>
  C8, as amended. \<^verbatim>\<open>generate_contract\<close> interpolates one value, \<^verbatim>\<open>market['mechanism']\<close>,
  and inserts its text as it is, between \<^verbatim>\<open>mechanism = "\<close> and \<^verbatim>\<open>";\<close>, with no escaping. The
  question is never inserted: storing another question in the dictionary changes nothing.
\<close>

theorem C8_mechanism_inserted_verbatim:
  \<open>(generate_contract lim m = Inr t \<longrightarrow>
      (\<exists>v. dict_get m ''mechanism'' = Some v \<and>
           t = join [CHR 0x0A]
                 (template_head @ [''        mechanism = "'' @ str_text v @ ''";''] @ template_tail)))
   \<and> str_text (PStr s) = s \<and> py_str lim (PStr s) = Inr s
   \<and> generate_contract lim (dict_set m ''question'' q) = generate_contract lim m\<close>
proof (intro conjI impI)
  assume "generate_contract lim m = Inr t"
  then show \<open>\<exists>v. dict_get m ''mechanism'' = Some v \<and>
           t = join [CHR 0x0A]
                 (template_head @ [''        mechanism = "'' @ str_text v @ ''";''] @ template_tail)\<close>
    by (auto simp: generate_contract_Inr contract_text_lines)
next
  show "str_text (PStr s) = s" by simp
next
  show "py_str lim (PStr s) = Inr s" by (rule py_str_PStr)
next
  show "generate_contract lim (dict_set m ''question'' q) = generate_contract lim m"
    by (rule generate_contract_cong) (simp_all add: dict_get_dict_set)
qed

theorem C8_mechanism_inserted_verbatim_witness:
  \<open>generate_contract 4300 [(''fee'', PInt 100), (''mechanism'', PStr ''pool'')] =
     Inr (join [CHR 0x0A] (template_head @ [''        mechanism = "pool";''] @ template_tail))\<close>
proof -
  let ?m = "[(''fee'', PInt 100), (''mechanism'', PStr ''pool'')]"
  have g: "generate_contract 4300 ?m = Inr (contract_text ''pool'')"
    by (simp add: generate_contract_def generate_contract_fee_def subscript_def dict_get_def)
  from C8_mechanism_inserted_verbatim
    [where lim = 4300 and m = ?m and t = "contract_text ''pool''"] g
  show ?thesis
    by (simp add: dict_get_def)
qed

text \<open>
  Where the specification's sentence fails: a mechanism with a double quote is inserted as
  it is, so the string literal of the contract ends after \<^verbatim>\<open>p\<close>.
\<close>

theorem C8_counterexample:
  \<open>generate_contract 4300
     [(''question'', PStr ''Is "x" true?''), (''fee'', PInt 100),
      (''mechanism'', PStr ''p"; fee = 0; //'')] =
   Inr (join [CHR 0x0A]
         (template_head @ [''        mechanism = "p"; fee = 0; //";''] @ template_tail))\<close>
  by (simp add: generate_contract_def generate_contract_fee_def subscript_def dict_get_def
      contract_text_lines)




text \<open>
  C1, as amended. For every fee numeral of the document (within the interpreter's limit on
  digits), with value \<open>f\<close>, the fee reduction of the parser gives the integer \<open>f\<close>,
  a percentage; the conversion step of \<^verbatim>\<open>generate_contract\<close> leaves an integer as it is, so
  the fee stays \<open>f\<close> and is not \<open>100 * f\<close>; and no fee is rejected, whatever its
  size: the contract is generated. The value of a numeral is the number it denotes: the
  decimal numeral of \<open>k\<close> reduces to \<open>k\<close>.
\<close>

theorem C1_fee_stays_a_percentage:
  assumes "ds \<noteq> []" and "list_all is_digit ds"
      and "length ds \<le> 640 \<or> lim = 0 \<or> length ds \<le> lim"
  shows "MarketTransformer_fee lim [ds] = Inr [(''fee'', PInt (int (digits_value 0 ds)))] \<and>
         generate_contract_fee lim (market_ast q a (int (digits_value 0 ds)))
           = Inr (PInt (int (digits_value 0 ds))) \<and>
         generate_contract lim (market_ast q a (int (digits_value 0 ds)))
           = Inr (contract_text ''pool'') \<and>
         (length (dec_nat k) \<le> 640 \<or> lim = 0 \<or> length (dec_nat k) \<le> lim \<longrightarrow>
            MarketTransformer_fee lim [dec_nat k] = Inr [(''fee'', PInt (int k))])"
  using assms dec_nat_digits[of k]
  by (auto simp: MarketTransformer_fee_digits generate_contract_fee_market_ast
      generate_contract_market_ast digits_value_dec_nat)

theorem C1_fee_stays_a_percentage_witness:
  "MarketTransformer_fee 4300 [''15''] = Inr [(''fee'', PInt 15)] \<and>
   generate_contract_fee 4300
     (market_ast ''Q?'' ''0x1234567890123456789012345678901234567890'' 15) = Inr (PInt 15) \<and>
   generate_contract 4300
     (market_ast ''Q?'' ''0x1234567890123456789012345678901234567890'' 15)
       = Inr (contract_text ''pool'')"
proof -
  have v: "int (digits_value 0 ''15'') = 15"
    by (simp add: digit_val_def)
  have d: "list_all is_digit ''15''"
    by (simp add: is_digit_def)
  from C1_fee_stays_a_percentage [of "''15''" 4300 "''Q?''"
      "''0x1234567890123456789012345678901234567890''"] d v
  show ?thesis by simp
qed

text \<open>
  Where the specification's sentence fails: for the numeral 1 the fee is 1 after the fee
  reduction and after the generator's conversion step, not 100; for the numeral 15 the
  reduction gives 15 and the contract is generated.
\<close>

theorem C1_counterexample:
  "MarketTransformer_fee 4300 [''1''] = Inr [(''fee'', PInt 1)] \<and>
   generate_contract_fee 4300
     (market_ast ''Will ETH reach $5000 in 2024?''
        ''0x1234567890123456789012345678901234567890'' 1) = Inr (PInt 1) \<and>
   MarketTransformer_fee 4300 [''15''] = Inr [(''fee'', PInt 15)] \<and>
   generate_contract 4300
     (market_ast ''Will ETH reach $5000 in 2024?''
        ''0x1234567890123456789012345678901234567890'' 15) = Inr (contract_text ''pool'')"
proof -
  have "MarketTransformer_fee 4300 [''1''] = Inr [(''fee'', PInt 1)]"
    by code_simp
  moreover have "MarketTransformer_fee 4300 [''15''] = Inr [(''fee'', PInt 15)]"
    by code_simp
  ultimately show ?thesis
    by (simp add: generate_contract_fee_market_ast generate_contract_market_ast)
qed

section \<open>The parser: claims\<close>

text \<open>
  C4. \<^verbatim>\<open>parse_market\<close> builds its parser from the file \<^verbatim>\<open>market_grammar.lark\<close> and from
  nothing else; when that file does not exist, every call raises the error of opening it,
  whatever the text, before any of the text is read.
\<close>

theorem C4_parse_market_without_grammar_file:
  "parse_market lim False src = Inl (FileNotFoundError ''market_grammar.lark'')"
  by (simp add: parse_market_def)

theorem C4_parse_market_without_grammar_file_witness:
  "parse_market 4300 False example_document = Inl (FileNotFoundError ''market_grammar.lark'')"
  by (rule C4_parse_market_without_grammar_file)

text \<open>
  C9. Every dictionary that \<^verbatim>\<open>parse_market\<close> returns has the outcomes
  \<^verbatim>\<open>["Yes", "No"]\<close> and the mechanism \<^verbatim>\<open>"pool"\<close>: the two reductions ignore their argument.
\<close>

theorem C9_outcomes_and_mechanism_fixed:
  "(parse_market lim grammar_file src = Inr ast \<longrightarrow>
      dict_get ast ''outcomes'' = Some (PList [''Yes'', ''No'']) \<and>
      dict_get ast ''mechanism'' = Some (PStr ''pool'')) \<and>
   MarketTransformer_outcomes x = [(''outcomes'', PList [''Yes'', ''No''])] \<and>
   MarketTransformer_trading_mechanism y = [(''mechanism'', PStr ''pool'')]"
proof (intro conjI impI)
  assume "parse_market lim grammar_file src = Inr ast"
  then have "lark_parse lim src = Inr ast"
    by (simp add: parse_market_def split: if_splits)
  from lark_parse_sound[OF this] obtain q a n where
    "ast = market_ast q a (int (digits_value 0 n))"
    by blast
  then show "dict_get ast ''outcomes'' = Some (PList [''Yes'', ''No''])"
    and "dict_get ast ''mechanism'' = Some (PStr ''pool'')"
    by (simp_all add: dict_get_market_ast)
next
  show "MarketTransformer_outcomes x = [(''outcomes'', PList [''Yes'', ''No''])]"
    by (simp add: MarketTransformer_outcomes_def)
next
  show "MarketTransformer_trading_mechanism y = [(''mechanism'', PStr ''pool'')]"
    by (simp add: MarketTransformer_trading_mechanism_def)
qed

theorem C9_outcomes_and_mechanism_fixed_witness:
  "parse_market 4300 True example_document =
     Inr (market_ast ''Will ETH reach $5000 in 2024?''
            ''0x1234567890123456789012345678901234567890'' 1) \<and>
   dict_get (market_ast ''Will ETH reach $5000 in 2024?''
            ''0x1234567890123456789012345678901234567890'' 1) ''outcomes''
     = Some (PList [''Yes'', ''No'']) \<and>
   dict_get (market_ast ''Will ETH reach $5000 in 2024?''
            ''0x1234567890123456789012345678901234567890'' 1) ''mechanism''
     = Some (PStr ''pool'')"
proof -
  have p: "parse_market 4300 True example_document =
     Inr (market_ast ''Will ETH reach $5000 in 2024?''
            ''0x1234567890123456789012345678901234567890'' 1)"
    by (simp add: parse_market_def lark_parse_example)
  from C9_outcomes_and_mechanism_fixed [where lim = 4300 and grammar_file = True
      and src = example_document
      and ast = "market_ast ''Will ETH reach $5000 in 2024?''
            ''0x1234567890123456789012345678901234567890'' 1"
      and x = "()" and y = "()"] p
  show ?thesis by simp
qed

text \<open>
  C2, as amended. With the grammar file in place the document of the scenario parses to the
  dictionary of the claim, with fee 1. No step validates it or computes 100 basis points:
  the conversion step of \<^verbatim>\<open>generate_contract\<close> leaves the integer 1. The generated text is
  the template with the mechanism \<^verbatim>\<open>pool\<close>, the same for every question, oracle and fee (its
  constructor takes them as parameters), and the oracle address does not occur in it.
\<close>

theorem C2_scenario:
  "parse_market lim True example_document =
     Inr (market_ast ''Will ETH reach $5000 in 2024?''
            ''0x1234567890123456789012345678901234567890'' 1) \<and>
   market_ast ''Will ETH reach $5000 in 2024?''
            ''0x1234567890123456789012345678901234567890'' 1 =
     [(''question'', PStr ''Will ETH reach $5000 in 2024?''),
      (''outcomes'', PList [''Yes'', ''No'']),
      (''oracle'', PStr ''0x1234567890123456789012345678901234567890''),
      (''fee'', PInt 1), (''mechanism'', PStr ''pool'')] \<and>
   generate_contract_fee lim (market_ast ''Will ETH reach $5000 in 2024?''
            ''0x1234567890123456789012345678901234567890'' 1) = Inr (PInt 1) \<and>
   (\<forall>q a f. generate_contract lim (market_ast q a f) = Inr (contract_text ''pool'')) \<and>
   \<not> sublist ''0x1234567890123456789012345678901234567890'' (contract_text ''pool'')"
  by (simp add: parse_market_def lark_parse_example generate_contract_fee_market_ast
      generate_contract_market_ast oracle_not_in_contract_text)
    (simp add: market_ast_def)

theorem C2_scenario_witness:
  "parse_market 0 True example_document =
     Inr (market_ast ''Will ETH reach $5000 in 2024?''
            ''0x1234567890123456789012345678901234567890'' 1) \<and>
   generate_contract 0 (market_ast ''Will ETH reach $5000 in 2024?''
            ''0x1234567890123456789012345678901234567890'' 1) = Inr (contract_text ''pool'')"
  using C2_scenario [of 0] by blast

text \<open>
  Where the specification's sentence fails: on the dictionary of the scenario the fee of
  the generator is 1, and the text it returns does not contain the oracle address.
\<close>

theorem C2_counterexample:
  "generate_contract_fee 4300
     [(''question'', PStr ''Will ETH reach $5000 in 2024?''),
      (''outcomes'', PList [''Yes'', ''No'']),
      (''oracle'', PStr ''0x1234567890123456789012345678901234567890''),
      (''fee'', PInt 1), (''mechanism'', PStr ''pool'')] = Inr (PInt 1) \<and>
   generate_contract 4300
     [(''question'', PStr ''Will ETH reach $5000 in 2024?''),
      (''outcomes'', PList [''Yes'', ''No'']),
      (''oracle'', PStr ''0x1234567890123456789012345678901234567890''),
      (''fee'', PInt 1), (''mechanism'', PStr ''pool'')] = Inr (contract_text ''pool'') \<and>
   \<not> sublist ''0x1234567890123456789012345678901234567890'' (contract_text ''pool'')"
  using generate_contract_fee_market_ast [of 4300 "''Will ETH reach $5000 in 2024?''"
      "''0x1234567890123456789012345678901234567890''" 1]
    generate_contract_market_ast [of 4300 "''Will ETH reach $5000 in 2024?''"
      "''0x1234567890123456789012345678901234567890''" 1]
  by (simp add: market_ast_def oracle_not_in_contract_text)




end
